theory Spec2Isabelle
  imports Main "HOL-Library.Word" "HOL-Library.Sublist"
begin

section \<open>JavaScript values\<close>

text \<open>
  A JavaScript string is a sequence of 16-bit code units; \<open>===\<close>, \<open>startsWith\<close> and
  \<open>trim\<close> work on code units. The ASCII literals of the source are written
  \<open>lit ''...''\<close>. A Buffer is a sequence of bytes.
\<close>

type_synonym jsstring = "16 word list"
type_synonym bytes = "8 word list"

abbreviation lit :: "string \<Rightarrow> jsstring" where
  "lit s \<equiv> map of_char s"

text \<open>
  The values the handlers receive from JSON bodies and from their collaborators, and the
  values a collaborator can throw. Numbers are only tested for truthiness and printed as
  HTTP status codes, so integers stand for them. An object is its list of properties.
\<close>

datatype jsval =
    Undefined
  | Null
  | Bool bool
  | Num int
  | Str jsstring
  | Arr "jsval list"
  | Obj "(jsstring \<times> jsval) list"

text \<open>ToBoolean: what \<open>!x\<close> and \<open>x || y\<close> test.\<close>

fun truthy :: "jsval \<Rightarrow> bool" where
  "truthy Undefined = False"
| "truthy Null = False"
| "truthy (Bool b) = b"
| "truthy (Num n) = (n \<noteq> 0)"
| "truthy (Str s) = (s \<noteq> [])"
| "truthy (Arr xs) = True"
| "truthy (Obj kvs) = True"

definition js_or :: "jsval \<Rightarrow> jsval \<Rightarrow> jsval" where
  "js_or a b = (if truthy a then a else b)"

fun nullish :: "jsval \<Rightarrow> bool" where
  "nullish Undefined = True"
| "nullish Null = True"
| "nullish v = False"

text \<open>
  Reading one of the properties the handlers read (\<open>file_url\<close>, \<open>text\<close>, \<open>data\<close>,
  \<open>message\<close>) from a value that is neither null nor undefined: an object yields the
  property or undefined, a primitive or an array has none of them.
\<close>

fun property :: "jsval \<Rightarrow> jsstring \<Rightarrow> jsval" where
  "property (Obj kvs) k = (case map_of kvs k of Some v \<Rightarrow> v | None \<Rightarrow> Undefined)"
| "property v k = Undefined"

text \<open>
  The TypeError the engine throws when a property of null or undefined is read, or when
  a value that is not a function is called. Its message text belongs to the engine and is
  a parameter.
\<close>

definition TypeError :: "jsstring \<Rightarrow> jsval" where
  "TypeError msg = Obj [(lit ''name'', Str (lit ''TypeError'')), (lit ''message'', Str msg)]"

text \<open>\<open>v.k\<close> and destructuring \<open>const { k } = v\<close>: throws on null and undefined.\<close>

definition js_get :: "jsstring \<Rightarrow> jsval \<Rightarrow> jsstring \<Rightarrow> jsval + jsval" where
  "js_get te v k = (if nullish v then Inl (TypeError te) else Inr (property v k))"

text \<open>Optional chaining \<open>v?.k\<close>: undefined on null and undefined, never throws.\<close>

definition opt_prop :: "jsval \<Rightarrow> jsstring \<Rightarrow> jsval" where
  "opt_prop v k = (if nullish v then Undefined else property v k)"

text \<open>
  \<open>String.prototype.trim\<close> removes, at both ends, the code units of WhiteSpace and
  LineTerminator of ECMAScript: TAB, VT, FF, SP, NBSP, ZWNBSP, the Unicode space
  separators, LF, CR, LS and PS.
\<close>

definition is_white_space :: "16 word \<Rightarrow> bool" where
  "is_white_space c =
     (c \<in> {0x9, 0xA, 0xB, 0xC, 0xD, 0x20, 0xA0, 0x1680, 0x2028, 0x2029, 0x202F, 0x205F,
            0x3000, 0xFEFF}
      \<or> (0x2000 \<le> c \<and> c \<le> 0x200A))"

definition js_trim :: "jsstring \<Rightarrow> jsstring" where
  "js_trim s = rev (dropWhile is_white_space (rev (dropWhile is_white_space s)))"

text \<open>
  The method call \<open>v.trim()\<close> on a value that is not null or undefined: only a string
  has the method, anything else throws a TypeError.
\<close>

fun call_trim :: "jsstring \<Rightarrow> jsval \<Rightarrow> jsval + jsstring" where
  "call_trim te (Str s) = Inr (js_trim s)"
| "call_trim te v = Inl (TypeError te)"

text \<open>The expression \<open>(v || "").trim()\<close> of both handlers.\<close>

definition or_empty_trim :: "jsstring \<Rightarrow> jsval \<Rightarrow> jsval + jsstring" where
  "or_empty_trim te v = call_trim te (js_or v (Str []))"

text \<open>
  A non-negative integer in a template literal: its decimal digits (HTTP status codes are
  far below the size where JavaScript changes to exponent notation).
\<close>

fun show_nat :: "nat \<Rightarrow> jsstring" where
  "show_nat n =
     (if n < 10 then [of_nat (48 + n)]
      else show_nat (n div 10) @ [of_nat (48 + n mod 10)])"

declare show_nat.simps [simp del]

text \<open>Reading decimal digits back, to state that \<open>show_nat\<close> writes the number.\<close>

definition read_decimal :: "jsstring \<Rightarrow> nat" where
  "read_decimal s = foldl (\<lambda>a c. 10 * a + (unat c - 48)) 0 s"

section \<open>Requests, responses and collaborators\<close>

text \<open>
  The file multer stores in \<open>req.file\<close> (memory storage): the declared content type of
  the part and its bytes.
\<close>

record upfile =
  mimetype :: jsstring
  buffer :: bytes

text \<open>
  A file part of a multipart body: the name of its form field, the Content-Type header the
  client declares for it (if any), and its bytes.
\<close>

record part =
  fieldname :: jsstring
  content_type :: "jsstring option"
  content :: bytes

text \<open>
  A request as the routes see it, after the JSON body parser and CORS: the headers (names
  in lower case, as Node gives them), the parsed body (undefined when there is none), the
  file parts of the multipart body in their order, and \<open>req.file\<close>, which only multer sets.
\<close>

record request =
  headers :: "jsstring \<rightharpoonup> jsstring"
  body :: jsval
  files :: "part list"
  req_file :: "upfile option"

text \<open>\<open>res.status(s).json(b)\<close>; \<open>res.json(b)\<close> alone sends status 200.\<close>

record response =
  res_status :: nat
  res_body :: jsval

definition status_json :: "nat \<Rightarrow> jsval \<Rightarrow> response" where
  "status_json s b = \<lparr>res_status = s, res_body = b\<rparr>"

definition json :: "jsval \<Rightarrow> response" where
  "json b = status_json 200 b"

text \<open>
  The response of node-fetch: its status, and what \<open>arrayBuffer()\<close> resolves to or
  rejects with. \<open>ok\<close> is the getter of node-fetch: the status is in 200..299.
\<close>

record fetch_response =
  status :: nat
  arrayBuffer :: "jsval + bytes"

definition ok :: "fetch_response \<Rightarrow> bool" where
  "ok r = (200 \<le> status r \<and> status r < 300)"

text \<open>
  The collaborators, with \<open>Inl\<close> for a thrown value or a rejected promise: node-fetch,
  pdf-parse and \<open>Tesseract.recognize\<close>, and the message text of the engine's TypeError.
\<close>

record runtime =
  fetch :: "jsval \<Rightarrow> jsval + fetch_response"
  pdfParse :: "bytes \<Rightarrow> jsval + jsval"
  recognize :: "bytes \<Rightarrow> jsstring \<Rightarrow> jsval + jsval"
  type_error_message :: jsstring

text \<open>The effects of a handler, in order: collaborator calls and \<open>console.error\<close>.\<close>

datatype event =
    CallFetch jsval
  | CallArrayBuffer
  | CallPdfParse bytes
  | CallRecognize bytes jsstring
  | LogError jsstring jsval


text \<open>
  What an async handler ends with: a response sent, or a rejected promise that nothing in
  the handler catches (no response is sent by the handler).
\<close>

datatype outcome = Sent response | Unhandled jsval

text \<open>The process environment: \<open>OCR_API_KEY\<close> is a string or is not set.\<close>

record env =
  OCR_API_KEY :: "jsstring option"

definition env_value :: "jsstring option \<Rightarrow> jsval" where
  "env_value x = (case x of None \<Rightarrow> Undefined | Some s \<Rightarrow> Str s)"

text \<open>What a middleware passes to \<open>next\<close>: multer's error with its code, or another error.\<close>

datatype error = MulterError jsstring | OtherError jsval

datatype middleware_result = Next request | NextErr error | Respond response

section \<open>The service (src/unnamed/part_001)\<close>

text \<open>
  The first 125 lines of src/unnamed/part_000 are the same program, comments apart.
\<close>

definition MAX_FILE_SIZE :: nat where
  "MAX_FILE_SIZE = 10 * 1024 * 1024"

text \<open>
  multer is a package the service requires; the following is its behaviour for
  \<open>upload.single("file")\<close> with memory storage and \<open>limits.fileSize\<close>.

  The \<open>mimetype\<close> multer stores is not the Content-Type header of the part as declared:
  the parameters (from the first \<open>;\<close> on) are dropped and the media type is put in lower
  case; a part without the header gets \<open>text/plain\<close>. This is for a media type written as
  \<open>type/subtype\<close> in ASCII without white space or quotes.
\<close>

definition to_lower_ascii :: "16 word \<Rightarrow> 16 word" where
  "to_lower_ascii c = (if 0x41 \<le> c \<and> c \<le> 0x5A then c + 0x20 else c)"

definition multer_mimetype :: "jsstring option \<Rightarrow> jsstring" where
  "multer_mimetype declared =
     (case declared of
        None \<Rightarrow> lit ''text/plain''
      | Some d \<Rightarrow> map to_lower_ascii (takeWhile (\<lambda>c. c \<noteq> 0x3B) d))"

text \<open>
  The file parts are taken in their order. A part under a field name other than the one
  given, or a second part under it, is refused with a MulterError of code
  \<open>LIMIT_UNEXPECTED_FILE\<close>; a part larger than the limit is refused with
  \<open>LIMIT_FILE_SIZE\<close>; otherwise the part is the file stored. No property below depends on
  what happens at exactly the limit.
\<close>

fun accept_files :: "jsstring \<Rightarrow> nat \<Rightarrow> upfile option \<Rightarrow> part list \<Rightarrow> error + upfile option" where
  "accept_files name fileSize stored [] = Inr stored"
| "accept_files name fileSize stored (p # ps) =
     (if fieldname p \<noteq> name \<or> stored \<noteq> None
        then Inl (MulterError (lit ''LIMIT_UNEXPECTED_FILE''))
      else if fileSize < length (content p) then Inl (MulterError (lit ''LIMIT_FILE_SIZE''))
      else accept_files name fileSize
             (Some \<lparr>mimetype = multer_mimetype (content_type p), buffer = content p\<rparr>) ps)"

text \<open>
  The middleware: an error goes to the error handler; otherwise the request goes on, with
  the stored file in \<open>req.file\<close> (undefined when the body has no file part).
\<close>

definition upload_single :: "jsstring \<Rightarrow> nat \<Rightarrow> request \<Rightarrow> middleware_result" where
  "upload_single name fileSize req =
     (case accept_files name fileSize None (files req) of
        Inl err \<Rightarrow> NextErr err
      | Inr stored \<Rightarrow> Next (req\<lparr>req_file := stored\<rparr>))"

definition verifyKey :: "env \<Rightarrow> request \<Rightarrow> middleware_result" where
  "verifyKey e req =
     (let cfgKey = env_value (OCR_API_KEY e) in
      if \<not> truthy cfgKey then Next req
      else
        let key = env_value (headers req (lit ''x-api-key'')) in
        if key \<noteq> cfgKey
        then Respond (status_json 401 (Obj [(lit ''error'', Str (lit ''Unauthorized''))]))
        else Next req)"

definition health_handler :: "request \<Rightarrow> outcome \<times> event list" where
  "health_handler req =
     (Sent (json (Obj
        [(lit ''ok'', Bool True),
         (lit ''service'', Str (lit ''GovProp OCR'')),
         (lit ''endpoints'', Obj
            [(lit ''parseUrl'', Str (lit ''POST /parse'')),
             (lit ''ocrUpload'', Str (lit ''POST /api/ocr'')),
             (lit ''health'', Str (lit ''GET /healthz''))])])), [])"

text \<open>
  The \<open>try\<close> block of the \<open>/parse\<close> handler: \<open>Inl\<close> is the value thrown, \<open>Inr\<close> the
  response returned.
\<close>

definition parse_try :: "runtime \<Rightarrow> request \<Rightarrow> (jsval + response) \<times> event list" where
  "parse_try rt req =
     (case js_get (type_error_message rt) (js_or (body req) (Obj [])) (lit ''file_url'') of
        Inl e \<Rightarrow> (Inl e, [])
      | Inr file_url \<Rightarrow>
          if \<not> truthy file_url
          then (Inr (status_json 400 (Obj [(lit ''error'', Str (lit ''Missing file_url''))])), [])
          else
            (case fetch rt file_url of
               Inl e \<Rightarrow> (Inl e, [CallFetch file_url])
             | Inr r \<Rightarrow>
                 if \<not> ok r
                 then (Inr (status_json 502 (Obj [(lit ''error'',
                         Str (lit ''Failed to fetch PDF ('' @ show_nat (status r) @ lit '')''))])),
                       [CallFetch file_url])
                 else
                   (case arrayBuffer r of
                      Inl e \<Rightarrow> (Inl e, [CallFetch file_url, CallArrayBuffer])
                    | Inr buf \<Rightarrow>
                        (case pdfParse rt buf of
                           Inl e \<Rightarrow> (Inl e, [CallFetch file_url, CallArrayBuffer, CallPdfParse buf])
                         | Inr data \<Rightarrow>
                             (case or_empty_trim (type_error_message rt) (opt_prop data (lit ''text'')) of
                                Inl e \<Rightarrow>
                                  (Inl e, [CallFetch file_url, CallArrayBuffer, CallPdfParse buf])
                              | Inr text \<Rightarrow>
                                  (Inr (json (Obj [(lit ''extracted_text'', Str text)])),
                                   [CallFetch file_url, CallArrayBuffer, CallPdfParse buf]))))))"

definition parse_handler :: "runtime \<Rightarrow> request \<Rightarrow> outcome \<times> event list" where
  "parse_handler rt req =
     (case parse_try rt req of
        (Inr r, tr) \<Rightarrow> (Sent r, tr)
      | (Inl e, tr) \<Rightarrow>
          (Sent (status_json 500 (Obj [(lit ''error'', Str (lit ''Failed to parse document''))])),
           tr @ [LogError (lit ''parse-url error:'') e]))"

text \<open>The \<open>try\<close> block of the \<open>/api/ocr\<close> handler.\<close>

definition api_ocr_try :: "runtime \<Rightarrow> request \<Rightarrow> (jsval + response) \<times> event list" where
  "api_ocr_try rt req =
     (case req_file req of
        None \<Rightarrow> (Inr (status_json 400 (Obj [(lit ''error'', Str (lit ''No file uploaded''))])), [])
      | Some f \<Rightarrow>
          if mimetype f = lit ''application/pdf'' then
            (case pdfParse rt (buffer f) of
               Inl e \<Rightarrow> (Inl e, [CallPdfParse (buffer f)])
             | Inr data \<Rightarrow>
                 (case or_empty_trim (type_error_message rt) (opt_prop data (lit ''text'')) of
                    Inl e \<Rightarrow> (Inl e, [CallPdfParse (buffer f)])
                  | Inr text \<Rightarrow>
                      (Inr (json (Obj [(lit ''success'', Bool True), (lit ''text'', Str text),
                                       (lit ''fileType'', Str (mimetype f))])),
                       [CallPdfParse (buffer f)])))
          else if prefix (lit ''image/'') (mimetype f) then
            (case recognize rt (buffer f) (lit ''eng'') of
               Inl e \<Rightarrow> (Inl e, [CallRecognize (buffer f) (lit ''eng'')])
             | Inr result \<Rightarrow>
                 (case or_empty_trim (type_error_message rt)
                         (opt_prop (opt_prop result (lit ''data'')) (lit ''text'')) of
                    Inl e \<Rightarrow> (Inl e, [CallRecognize (buffer f) (lit ''eng'')])
                  | Inr text \<Rightarrow>
                      (Inr (json (Obj [(lit ''success'', Bool True), (lit ''text'', Str text),
                                       (lit ''fileType'', Str (mimetype f))])),
                       [CallRecognize (buffer f) (lit ''eng'')])))
          else
            (Inr (status_json 400 (Obj [(lit ''error'',
                    Str (lit ''Unsupported file type. Upload a PDF or image.''))])), []))"

text \<open>
  The \<open>catch\<close> block reads \<open>error.message\<close>, which itself throws when the value caught is
  null or undefined.
\<close>

definition api_ocr_handler :: "runtime \<Rightarrow> request \<Rightarrow> outcome \<times> event list" where
  "api_ocr_handler rt req =
     (case api_ocr_try rt req of
        (Inr r, tr) \<Rightarrow> (Sent r, tr)
      | (Inl e, tr) \<Rightarrow>
          (case js_get (type_error_message rt) e (lit ''message'') of
             Inl e' \<Rightarrow> (Unhandled e', tr @ [LogError (lit ''OCR upload error:'') e])
           | Inr m \<Rightarrow>
               (Sent (status_json 500 (Obj [(lit ''error'', Str (lit ''Failed to process file'')),
                                            (lit ''message'', m)])),
                tr @ [LogError (lit ''OCR upload error:'') e])))"

text \<open>The error-handling middleware registered last.\<close>

definition multer_error_handler :: "error \<Rightarrow> response" where
  "multer_error_handler err =
     (case err of
        MulterError c \<Rightarrow>
          if c = lit ''LIMIT_FILE_SIZE''
          then status_json 400 (Obj [(lit ''error'', Str (lit ''File too large (max 10MB)''))])
          else status_json 500 (Obj [(lit ''error'', Str (lit ''Unexpected error''))])
      | OtherError v \<Rightarrow> status_json 500 (Obj [(lit ''error'', Str (lit ''Unexpected error''))]))"

text \<open>
  A route: its middlewares run in the order of registration, each one passing the request
  on, answering, or passing an error to the error handler; the handler runs last.
\<close>

fun run_route :: "(request \<Rightarrow> middleware_result) list \<Rightarrow> (request \<Rightarrow> outcome \<times> event list)
    \<Rightarrow> request \<Rightarrow> outcome \<times> event list" where
  "run_route [] h req = h req"
| "run_route (m # ms) h req =
     (case m req of
        Next req' \<Rightarrow> run_route ms h req'
      | NextErr err \<Rightarrow> (Sent (multer_error_handler err), [])
      | Respond r \<Rightarrow> (Sent r, []))"

definition get_health :: "env \<Rightarrow> runtime \<Rightarrow> request \<Rightarrow> outcome \<times> event list" where
  "get_health e rt req = run_route [] health_handler req"

definition post_parse :: "env \<Rightarrow> runtime \<Rightarrow> request \<Rightarrow> outcome \<times> event list" where
  "post_parse e rt req = run_route [verifyKey e] (parse_handler rt) req"

definition post_api_ocr :: "env \<Rightarrow> runtime \<Rightarrow> request \<Rightarrow> outcome \<times> event list" where
  "post_api_ocr e rt req =
     run_route [verifyKey e, upload_single (lit ''file'') MAX_FILE_SIZE] (api_ocr_handler rt) req"

text \<open>
  The routes in the order of registration, with the paths as they are written there. A
  request that matches none of them is not answered by the service's own code (\<open>None\<close>).
\<close>

datatype http_method = GET | POST

definition app :: "env \<Rightarrow> runtime \<Rightarrow> http_method \<Rightarrow> jsstring \<Rightarrow> request
    \<Rightarrow> (outcome \<times> event list) option" where
  "app e rt m path req =
     (if m = GET \<and> path \<in> set [lit ''/'', lit ''/healthz''] then Some (get_health e rt req)
      else if m = POST \<and> path = lit ''/parse'' then Some (post_parse e rt req)
      else if m = POST \<and> path = lit ''/api/ocr'' then Some (post_api_ocr e rt req)
      else None)"

section \<open>The minimal service (src/server.js)\<close>

definition healthz_minimal :: "request \<Rightarrow> outcome \<times> event list" where
  "healthz_minimal req = (Sent (status_json 200 (Obj [(lit ''ok'', Bool True)])), [])"

text \<open>Here the body is destructured as it is, so an undefined body throws in the \<open>try\<close>.\<close>

definition parse_try_minimal :: "runtime \<Rightarrow> request \<Rightarrow> (jsval + response) \<times> event list" where
  "parse_try_minimal rt req =
     (case js_get (type_error_message rt) (body req) (lit ''file_url'') of
        Inl e \<Rightarrow> (Inl e, [])
      | Inr file_url \<Rightarrow>
          if \<not> truthy file_url
          then (Inr (status_json 400 (Obj [(lit ''error'', Str (lit ''Missing file_url''))])), [])
          else
            (case fetch rt file_url of
               Inl e \<Rightarrow> (Inl e, [CallFetch file_url])
             | Inr r \<Rightarrow>
                 if \<not> ok r
                 then (Inr (status_json 502 (Obj [(lit ''error'',
                         Str (lit ''Failed to fetch PDF ('' @ show_nat (status r) @ lit '')''))])),
                       [CallFetch file_url])
                 else
                   (case arrayBuffer r of
                      Inl e \<Rightarrow> (Inl e, [CallFetch file_url, CallArrayBuffer])
                    | Inr buf \<Rightarrow>
                        (case pdfParse rt buf of
                           Inl e \<Rightarrow> (Inl e, [CallFetch file_url, CallArrayBuffer, CallPdfParse buf])
                         | Inr data \<Rightarrow>
                             (case or_empty_trim (type_error_message rt) (opt_prop data (lit ''text'')) of
                                Inl e \<Rightarrow>
                                  (Inl e, [CallFetch file_url, CallArrayBuffer, CallPdfParse buf])
                              | Inr text \<Rightarrow>
                                  (Inr (json (Obj [(lit ''extracted_text'', Str text)])),
                                   [CallFetch file_url, CallArrayBuffer, CallPdfParse buf]))))))"

definition parse_handler_minimal :: "runtime \<Rightarrow> request \<Rightarrow> outcome \<times> event list" where
  "parse_handler_minimal rt req =
     (case parse_try_minimal rt req of
        (Inr r, tr) \<Rightarrow> (Sent r, tr)
      | (Inl e, tr) \<Rightarrow>
          (Sent (status_json 500 (Obj [(lit ''error'', Str (lit ''Failed to parse document''))])),
           tr @ [LogError (lit ''OCR parse error:'') e]))"

definition app_minimal :: "env \<Rightarrow> runtime \<Rightarrow> http_method \<Rightarrow> jsstring \<Rightarrow> request
    \<Rightarrow> (outcome \<times> event list) option" where
  "app_minimal e rt m path req =
     (if m = GET \<and> path = lit ''/healthz'' then Some (run_route [] healthz_minimal req)
      else if m = POST \<and> path = lit ''/parse''
        then Some (run_route [verifyKey e] (parse_handler_minimal rt) req)
      else None)"

section \<open>Example inputs\<close>

text \<open>
  Collaborators that succeed, and a request without key, body or file; the examples below
  vary them.
\<close>

definition example_runtime :: runtime where
  "example_runtime =
     \<lparr>fetch = (\<lambda>url. Inr \<lparr>status = 200, arrayBuffer = Inr [0x25, 0x50, 0x44, 0x46]\<rparr>),
      pdfParse = (\<lambda>buf. Inr (Obj [(lit ''numpages'', Num 1), (lit ''text'', Str (lit ''  Hello PDF ''))])),
      recognize = (\<lambda>buf lang. Inr (Obj [(lit ''data'', Obj [(lit ''text'', Str (lit ''scanned text ''))])])),
      type_error_message = lit ''Cannot read properties of undefined''\<rparr>"

definition example_request :: request where
  "example_request = \<lparr>headers = Map.empty, body = Undefined, files = [], req_file = None\<rparr>"



section \<open>Properties of the value operations\<close>

lemmas handler_defs =
  parse_handler_def parse_try_def parse_handler_minimal_def parse_try_minimal_def
  api_ocr_handler_def api_ocr_try_def js_get_def js_or_def status_json_def json_def


lemma or_empty_trim_Str: "or_empty_trim te (Str s) = Inr (js_trim s)"
  by (simp add: or_empty_trim_def js_or_def js_trim_def)


lemma js_trim_decomp:
  "\<exists>pre post. s = pre @ js_trim s @ post
     \<and> (\<forall>c \<in> set pre. is_white_space c) \<and> (\<forall>c \<in> set post. is_white_space c)"
proof -
  let ?a = "dropWhile is_white_space s"
  let ?pre = "takeWhile is_white_space s"
  let ?post = "rev (takeWhile is_white_space (rev ?a))"
  have "rev ?a = takeWhile is_white_space (rev ?a) @ dropWhile is_white_space (rev ?a)"
    by simp
  then have "?a = rev (dropWhile is_white_space (rev ?a)) @ ?post"
    by (metis rev_append rev_rev_ident)
  then have "s = ?pre @ js_trim s @ ?post"
    by (metis js_trim_def takeWhile_dropWhile_id)
  moreover have "\<forall>c \<in> set ?pre. is_white_space c"
    by (auto dest: set_takeWhileD)
  moreover have "\<forall>c \<in> set ?post. is_white_space c"
    by (auto dest: set_takeWhileD)
  ultimately show ?thesis by blast
qed

lemma js_trim_ends:
  "js_trim s \<noteq> [] \<Longrightarrow> \<not> is_white_space (hd (js_trim s)) \<and> \<not> is_white_space (last (js_trim s))"
proof -
  assume ne: "js_trim s \<noteq> []"
  let ?a = "dropWhile is_white_space s"
  let ?b = "dropWhile is_white_space (rev ?a)"
  have t: "js_trim s = rev ?b" by (simp add: js_trim_def)
  from ne t have bne: "?b \<noteq> []" by simp
  then have "\<not> is_white_space (hd ?b)" by (rule hd_dropWhile)
  then have l: "\<not> is_white_space (last (js_trim s))"
    using bne t by (simp add: last_rev)
  from bne have ane: "?a \<noteq> []"
    by (metis dropWhile.simps(1) rev.simps(1))
  then have ha: "\<not> is_white_space (hd ?a)" by (rule hd_dropWhile)
  have "hd (js_trim s) = last ?b" using bne t by (simp add: hd_rev)
  also have "\<dots> = last (rev ?a)"
    using bne by (metis dropWhile_eq_Nil_conv dropWhile_last)
  also have "\<dots> = hd ?a" using ane by (simp add: last_rev)
  finally show ?thesis using ha l by simp
qed

lemma digit_code_unit: "d < 10 \<Longrightarrow> unat (48 + of_nat d :: 16 word) = 48 + d"
proof -
  assume d: "d < 10"
  have "unat (of_nat (48 + d) :: 16 word) = (48 + d) mod 2 ^ LENGTH(16)"
    by (rule unat_of_nat)
  with d show ?thesis by simp
qed

lemma read_decimal_show_nat: "read_decimal (show_nat n) = n"
proof (induction n rule: show_nat.induct)
  case (1 n)
  show ?case
  proof (cases "n < 10")
    case True
    then show ?thesis
      by (subst show_nat.simps) (simp add: read_decimal_def digit_code_unit)
  next
    case False
    then have "read_decimal (show_nat (n div 10)) = n div 10"
      using 1 by simp
    moreover have "unat (48 + of_nat (n mod 10) :: 16 word) = 48 + n mod 10"
      by (rule digit_code_unit) simp
    ultimately show ?thesis using False
      by (subst show_nat.simps) (simp add: read_decimal_def)
  qed
qed

lemma show_nat_digits: "c \<in> set (show_nat n) \<Longrightarrow> 48 \<le> unat c \<and> unat c \<le> 57"
proof (induction n rule: show_nat.induct)
  case (1 n)
  show ?case
  proof (cases "n < 10")
    case True
    with 1(2) have "c = 48 + of_nat n"
      by (subst (asm) show_nat.simps) simp
    then show ?thesis using True digit_code_unit [of n] by simp
  next
    case False
    with 1(2) have "c \<in> set (show_nat (n div 10)) \<or> c = 48 + of_nat (n mod 10)"
      by (subst (asm) show_nat.simps) auto
    then show ?thesis
    proof
      assume "c \<in> set (show_nat (n div 10))"
      with 1(1) False show ?thesis by simp
    next
      assume "c = 48 + of_nat (n mod 10)"
      then show ?thesis using digit_code_unit [of "n mod 10"] by simp
    qed
  qed
qed

lemma show_nat_nonempty: "show_nat n \<noteq> []"
  by (subst show_nat.simps) simp

lemma show_nat_no_leading_zero: "0 < n \<Longrightarrow> hd (show_nat n) \<noteq> 48"
proof (induction n rule: show_nat.induct)
  case (1 n)
  show ?case
  proof (cases "n < 10")
    case True
    have "unat (48 + of_nat n :: 16 word) = 48 + n" using True by (rule digit_code_unit)
    with 1(2) have "(48 + of_nat n :: 16 word) \<noteq> 48" by auto
    with True show ?thesis by (subst show_nat.simps) simp
  next
    case False
    then have "0 < n div 10" by simp
    with 1(1) False have "hd (show_nat (n div 10)) \<noteq> 48" by simp
    with False show ?thesis
      by (subst show_nat.simps) (simp add: show_nat_nonempty)
  qed
qed

lemma show_nat_zero: "show_nat 0 = lit ''0''"
  by (simp add: show_nat.simps)

section \<open>The upload route\<close>










lemma mimetype_examples:
  "multer_mimetype (Some (lit ''APPLICATION/PDF'')) = lit ''application/pdf''"
  "multer_mimetype (Some (lit ''Application/Pdf'')) = lit ''application/pdf''"
  "multer_mimetype (Some (lit ''application/pdf; charset=binary'')) = lit ''application/pdf''"
  "multer_mimetype (Some (lit ''application/pdf'')) = lit ''application/pdf''"
  "multer_mimetype (Some (lit ''IMAGE/PNG'')) = lit ''image/png''"
  "multer_mimetype (Some (lit ''image/PNG'')) = lit ''image/png''"
  "multer_mimetype (Some (lit ''image/png'')) = lit ''image/png''"
  "multer_mimetype (Some (lit ''image'')) = lit ''image''"
  "multer_mimetype (Some (lit ''application/x-pdf'')) = lit ''application/x-pdf''"
  "multer_mimetype (Some (lit ''text/plain'')) = lit ''text/plain''"
  "multer_mimetype None = lit ''text/plain''"
  by (simp_all add: multer_mimetype_def to_lower_ascii_def)


section \<open>The upload route chooses by the stored content type\<close>




section \<open>Requests to /parse without a URL\<close>

text \<open>
  Claim C2. When the JSON body of a \<open>/parse\<close> request is an object without \<open>file_url\<close>,
  or with \<open>file_url\<close> the empty string, the handler answers 400 with the body
  \<open>{error: "Missing file_url"}\<close> and calls neither fetch nor the PDF extraction (the list
  of effects is empty). This holds for the handler of the service and for the one of
  src/server.js.
\<close>

theorem missing_file_url_400:
  assumes "body req = Obj kvs"
    and "map_of kvs (lit ''file_url'') = None \<or> map_of kvs (lit ''file_url'') = Some (Str [])"
  shows "parse_handler rt req =
           (Sent \<lparr>res_status = 400, res_body = Obj [(lit ''error'', Str (lit ''Missing file_url''))]\<rparr>, [])
       \<and> parse_handler_minimal rt req =
           (Sent \<lparr>res_status = 400, res_body = Obj [(lit ''error'', Str (lit ''Missing file_url''))]\<rparr>, [])"
  using assms by (auto simp add: handler_defs)

theorem missing_file_url_400_witness:
  "parse_handler example_runtime (example_request\<lparr>body := Obj [(lit ''file_url'', Str [])]\<rparr>) =
     (Sent \<lparr>res_status = 400, res_body = Obj [(lit ''error'', Str (lit ''Missing file_url''))]\<rparr>, [])
   \<and> parse_handler_minimal example_runtime (example_request\<lparr>body := Obj [(lit ''url'', Str (lit ''x''))]\<rparr>) =
     (Sent \<lparr>res_status = 400, res_body = Obj [(lit ''error'', Str (lit ''Missing file_url''))]\<rparr>, [])"
  using missing_file_url_400 [of "example_request\<lparr>body := Obj [(lit ''file_url'', Str [])]\<rparr>"
      "[(lit ''file_url'', Str [])]" example_runtime]
    missing_file_url_400 [of "example_request\<lparr>body := Obj [(lit ''url'', Str (lit ''x''))]\<rparr>"
      "[(lit ''url'', Str (lit ''x''))]" example_runtime]
  by (simp add: example_request_def)

section \<open>A fetch that does not succeed\<close>

text \<open>
  Claim C3. When the body of a \<open>/parse\<close> request carries a truthy \<open>file_url\<close> (a
  non-empty string in particular) and the fetch resolves to a response whose status
  \<open>s\<close> is outside 200..299, the handler answers 502 with the body
  \<open>{error: "Failed to fetch PDF (s)"}\<close>, where \<open>s\<close> is written as its decimal numeral:
  a non-empty run of digits without a leading zero (\<open>0\<close> itself apart) that reads back as
  the status. The only effect is the call of fetch: the response body is not read and the
  PDF extraction is not called. For status 404 the message is
  \<open>Failed to fetch PDF (404)\<close>, which contains \<open>404\<close>; for status 500 it is
  \<open>Failed to fetch PDF (500)\<close>.
\<close>

theorem fetch_non_2xx_is_502:
  assumes "body req = Obj kvs"
    and "map_of kvs (lit ''file_url'') = Some url"
    and "truthy url"
    and "fetch rt url = Inr r"
    and "status r < 200 \<or> 300 \<le> status r"
  shows "(\<exists>digits.
            parse_handler rt req =
              (Sent \<lparr>res_status = 502, res_body = Obj [(lit ''error'',
                 Str (lit ''Failed to fetch PDF ('' @ digits @ lit '')''))]\<rparr>,
               [CallFetch url])
          \<and> digits \<noteq> []
          \<and> (\<forall>c \<in> set digits. 48 \<le> unat c \<and> unat c \<le> 57)
          \<and> (digits = lit ''0'' \<or> hd digits \<noteq> 48)
          \<and> read_decimal digits = status r)
       \<and> (status r = 404 \<longrightarrow>
            parse_handler rt req =
              (Sent \<lparr>res_status = 502, res_body = Obj [(lit ''error'',
                 Str (lit ''Failed to fetch PDF ('' @ lit ''404'' @ lit '')''))]\<rparr>,
               [CallFetch url]))
       \<and> (status r = 500 \<longrightarrow>
            parse_handler rt req =
              (Sent \<lparr>res_status = 502, res_body = Obj [(lit ''error'',
                 Str (lit ''Failed to fetch PDF ('' @ lit ''500'' @ lit '')''))]\<rparr>,
               [CallFetch url]))"
proof -
  let ?d = "show_nat (status r)"
  have n: "show_nat 404 = lit ''404''" "show_nat 500 = lit ''500''"
    by (simp_all add: show_nat.simps)
  from assms have h: "parse_handler rt req =
           (Sent \<lparr>res_status = 502, res_body = Obj [(lit ''error'',
              Str (lit ''Failed to fetch PDF ('' @ ?d @ lit '')''))]\<rparr>,
            [CallFetch url])"
    by (auto simp add: handler_defs ok_def)
  have z: "?d = lit ''0'' \<or> hd ?d \<noteq> 48"
  proof (cases "status r = 0")
    case True
    then show ?thesis using show_nat_zero by simp
  next
    case False
    then have "hd ?d \<noteq> 48" by (simp add: show_nat_no_leading_zero)
    then show ?thesis ..
  qed
  have "parse_handler rt req =
              (Sent \<lparr>res_status = 502, res_body = Obj [(lit ''error'',
                 Str (lit ''Failed to fetch PDF ('' @ ?d @ lit '')''))]\<rparr>,
               [CallFetch url])
          \<and> ?d \<noteq> []
          \<and> (\<forall>c \<in> set ?d. 48 \<le> unat c \<and> unat c \<le> 57)
          \<and> (?d = lit ''0'' \<or> hd ?d \<noteq> 48)
          \<and> read_decimal ?d = status r"
    using h z show_nat_nonempty [of "status r"] show_nat_digits [of _ "status r"]
      read_decimal_show_nat [of "status r"]
    by blast
  then have first: "\<exists>digits.
            parse_handler rt req =
              (Sent \<lparr>res_status = 502, res_body = Obj [(lit ''error'',
                 Str (lit ''Failed to fetch PDF ('' @ digits @ lit '')''))]\<rparr>,
               [CallFetch url])
          \<and> digits \<noteq> []
          \<and> (\<forall>c \<in> set digits. 48 \<le> unat c \<and> unat c \<le> 57)
          \<and> (digits = lit ''0'' \<or> hd digits \<noteq> 48)
          \<and> read_decimal digits = status r"
    by (rule exI)
  from h n have "status r = 404 \<longrightarrow>
            parse_handler rt req =
              (Sent \<lparr>res_status = 502, res_body = Obj [(lit ''error'',
                 Str (lit ''Failed to fetch PDF ('' @ lit ''404'' @ lit '')''))]\<rparr>,
               [CallFetch url])"
    by auto
  moreover from h n have "status r = 500 \<longrightarrow>
            parse_handler rt req =
              (Sent \<lparr>res_status = 502, res_body = Obj [(lit ''error'',
                 Str (lit ''Failed to fetch PDF ('' @ lit ''500'' @ lit '')''))]\<rparr>,
               [CallFetch url])"
    by auto
  ultimately show ?thesis using first by blast
qed

theorem fetch_non_2xx_is_502_witness:
  "parse_handler
     (example_runtime\<lparr>fetch := (\<lambda>url. Inr \<lparr>status = 404, arrayBuffer = Inr []\<rparr>)\<rparr>)
     (example_request\<lparr>body := Obj [(lit ''file_url'', Str (lit ''https://example.com/a.pdf''))]\<rparr>) =
     (Sent \<lparr>res_status = 502, res_body = Obj [(lit ''error'', Str (lit ''Failed to fetch PDF (404)''))]\<rparr>,
      [CallFetch (Str (lit ''https://example.com/a.pdf''))])"
proof -
  let ?url = "Str (lit ''https://example.com/a.pdf'')"
  let ?kvs = "[(lit ''file_url'', ?url)]"
  let ?req = "example_request\<lparr>body := Obj ?kvs\<rparr>"
  let ?r = "\<lparr>status = 404, arrayBuffer = Inr []\<rparr>"
  let ?rt = "example_runtime\<lparr>fetch := (\<lambda>url. Inr ?r)\<rparr>"
  have b: "body ?req = Obj ?kvs" by simp
  have m: "map_of ?kvs (lit ''file_url'') = Some ?url" by simp
  have u: "truthy ?url" by simp
  have f: "fetch ?rt ?url = Inr ?r" by simp
  have s: "status ?r < 200 \<or> 300 \<le> status ?r" by simp
  have c: "status ?r = 404" by simp
  from fetch_non_2xx_is_502 [OF b m u f s, THEN conjunct2, THEN conjunct1, rule_format, OF c]
  show ?thesis by simp
qed

section \<open>A successful parse by URL\<close>

text \<open>
  Claim C4. When the body of a \<open>/parse\<close> request carries a truthy \<open>file_url\<close>, the
  fetch resolves to a response with a status in 200..299, its bytes are read and the PDF
  extraction returns \<open>data\<close>: if \<open>data?.text\<close> is a string \<open>s\<close>, the handler answers 200
  with the body \<open>{extracted_text: t}\<close> where \<open>t\<close> is \<open>s\<close> trimmed, that is \<open>s\<close> is
  \<open>t\<close> between two runs of white space and \<open>t\<close> neither starts nor ends with white
  space; if \<open>data?.text\<close> is undefined, \<open>extracted_text\<close> is the empty string.
\<close>

theorem parse_success_200:
  assumes "body req = Obj kvs"
    and "map_of kvs (lit ''file_url'') = Some url"
    and "truthy url"
    and "fetch rt url = Inr r"
    and "200 \<le> status r \<and> status r < 300"
    and "arrayBuffer r = Inr buf"
    and "pdfParse rt buf = Inr data"
  shows "(\<forall>s. opt_prop data (lit ''text'') = Str s \<longrightarrow>
            parse_handler rt req =
              (Sent \<lparr>res_status = 200, res_body = Obj [(lit ''extracted_text'', Str (js_trim s))]\<rparr>,
               [CallFetch url, CallArrayBuffer, CallPdfParse buf])
          \<and> (\<exists>pre post. s = pre @ js_trim s @ post
                \<and> (\<forall>c \<in> set pre. is_white_space c) \<and> (\<forall>c \<in> set post. is_white_space c))
          \<and> (js_trim s = [] \<or>
               \<not> is_white_space (hd (js_trim s)) \<and> \<not> is_white_space (last (js_trim s))))
       \<and> (opt_prop data (lit ''text'') = Undefined \<longrightarrow>
            parse_handler rt req =
              (Sent \<lparr>res_status = 200, res_body = Obj [(lit ''extracted_text'', Str [])]\<rparr>,
               [CallFetch url, CallArrayBuffer, CallPdfParse buf]))"
proof (intro conjI allI impI)
  fix s
  assume "opt_prop data (lit ''text'') = Str s"
  with assms show "parse_handler rt req =
      (Sent \<lparr>res_status = 200, res_body = Obj [(lit ''extracted_text'', Str (js_trim s))]\<rparr>,
       [CallFetch url, CallArrayBuffer, CallPdfParse buf])"
    by (simp add: handler_defs ok_def or_empty_trim_Str [unfolded js_or_def])
next
  fix s
  show "\<exists>pre post. s = pre @ js_trim s @ post
          \<and> (\<forall>c \<in> set pre. is_white_space c) \<and> (\<forall>c \<in> set post. is_white_space c)"
    by (rule js_trim_decomp)
next
  fix s
  show "js_trim s = [] \<or>
      \<not> is_white_space (hd (js_trim s)) \<and> \<not> is_white_space (last (js_trim s))"
    using js_trim_ends [of s] by blast
next
  assume "opt_prop data (lit ''text'') = Undefined"
  with assms show "parse_handler rt req =
      (Sent \<lparr>res_status = 200, res_body = Obj [(lit ''extracted_text'', Str [])]\<rparr>,
       [CallFetch url, CallArrayBuffer, CallPdfParse buf])"
    by (simp add: handler_defs ok_def or_empty_trim_def js_trim_def)
qed

theorem parse_success_200_witness:
  "parse_handler example_runtime
     (example_request\<lparr>body := Obj [(lit ''file_url'', Str (lit ''https://example.com/a.pdf''))]\<rparr>) =
     (Sent \<lparr>res_status = 200, res_body = Obj [(lit ''extracted_text'', Str (lit ''Hello PDF''))]\<rparr>,
      [CallFetch (Str (lit ''https://example.com/a.pdf'')), CallArrayBuffer,
       CallPdfParse [0x25, 0x50, 0x44, 0x46]])
   \<and> parse_handler (example_runtime\<lparr>pdfParse := (\<lambda>buf. Inr (Obj [(lit ''numpages'', Num 0)]))\<rparr>)
     (example_request\<lparr>body := Obj [(lit ''file_url'', Str (lit ''https://example.com/a.pdf''))]\<rparr>) =
     (Sent \<lparr>res_status = 200, res_body = Obj [(lit ''extracted_text'', Str [])]\<rparr>,
      [CallFetch (Str (lit ''https://example.com/a.pdf'')), CallArrayBuffer,
       CallPdfParse [0x25, 0x50, 0x44, 0x46]])"
proof -
  let ?url = "Str (lit ''https://example.com/a.pdf'')"
  let ?kvs = "[(lit ''file_url'', ?url)]"
  let ?req = "example_request\<lparr>body := Obj ?kvs\<rparr>"
  let ?r = "\<lparr>status = 200, arrayBuffer = Inr [0x25, 0x50, 0x44, 0x46]\<rparr>"
  let ?d1 = "Obj [(lit ''numpages'', Num 1), (lit ''text'', Str (lit ''  Hello PDF ''))]"
  let ?d2 = "Obj [(lit ''numpages'', Num 0)]"
  let ?rt2 = "example_runtime\<lparr>pdfParse := (\<lambda>buf. Inr ?d2)\<rparr>"
  have b: "body ?req = Obj ?kvs" by simp
  have m: "map_of ?kvs (lit ''file_url'') = Some ?url" by simp
  have u: "truthy ?url" by simp
  have f1: "fetch example_runtime ?url = Inr ?r" by (simp add: example_runtime_def)
  have f2: "fetch ?rt2 ?url = Inr ?r" by (simp add: example_runtime_def)
  have s: "200 \<le> status ?r \<and> status ?r < 300" by simp
  have a: "arrayBuffer ?r = Inr [0x25, 0x50, 0x44, 0x46]" by simp
  have p1: "pdfParse example_runtime [0x25, 0x50, 0x44, 0x46] = Inr ?d1"
    by (simp add: example_runtime_def)
  have p2: "pdfParse ?rt2 [0x25, 0x50, 0x44, 0x46] = Inr ?d2" by simp
  have o1: "opt_prop ?d1 (lit ''text'') = Str (lit ''  Hello PDF '')" by (simp add: opt_prop_def)
  have o2: "opt_prop ?d2 (lit ''text'') = Undefined" by (simp add: opt_prop_def)
  have t: "js_trim (lit ''  Hello PDF '') = lit ''Hello PDF''"
    by (simp add: js_trim_def is_white_space_def)
  note w1 = parse_success_200 [OF b m u f1 s a p1, THEN conjunct1, rule_format, OF o1, THEN conjunct1]
  note w2 = parse_success_200 [OF b m u f2 s a p2, THEN conjunct2, rule_format, OF o2]
  from w1 w2 t show ?thesis by simp
qed

section \<open>A successful upload\<close>





section \<open>Failures of the collaborators\<close>







section \<open>The upload size limit\<close>

text \<open>
  Claim C7. A request to \<open>POST /api/ocr\<close> that passes the API-key guard and whose file
  has more than 10 * 1024 * 1024 bytes is answered 400 with the body
  \<open>{error: "File too large (max 10MB)"}\<close>, whatever its declared content type; the
  handler does not run: no collaborator is called and the answer does not depend on them.
\<close>

theorem oversized_upload_is_400:
  assumes "verifyKey e req = Next req"
    and "files req = p # ps"
    and "fieldname p = lit ''file''"
    and "10 * 1024 * 1024 < length (content p)"
  shows "app e rt POST (lit ''/api/ocr'') req =
           Some (Sent \<lparr>res_status = 400,
                       res_body = Obj [(lit ''error'', Str (lit ''File too large (max 10MB)''))]\<rparr>, [])"
  using assms
  by (simp add: app_def post_api_ocr_def upload_single_def MAX_FILE_SIZE_def
      multer_error_handler_def status_json_def)

theorem oversized_upload_is_400_witness:
  "app \<lparr>OCR_API_KEY = None\<rparr> example_runtime POST (lit ''/api/ocr'')
     (example_request\<lparr>files := [\<lparr>fieldname = lit ''file'', content_type = Some (lit ''image/png''),
        content = replicate 11534336 0\<rparr>]\<rparr>) =
     Some (Sent \<lparr>res_status = 400,
                 res_body = Obj [(lit ''error'', Str (lit ''File too large (max 10MB)''))]\<rparr>, [])"
proof -
  let ?p = "\<lparr>fieldname = lit ''file'', content_type = Some (lit ''image/png''),
    content = replicate 11534336 0\<rparr>"
  let ?req = "example_request\<lparr>files := [?p]\<rparr>"
  have g: "verifyKey \<lparr>OCR_API_KEY = None\<rparr> ?req = Next ?req"
    by (simp add: verifyKey_def env_value_def)
  have u: "files ?req = ?p # []" by simp
  have n: "fieldname ?p = lit ''file''" by simp
  have l: "10 * 1024 * 1024 < length (content ?p)" by simp
  from oversized_upload_is_400 [OF g u n l] show ?thesis .
qed

section \<open>The API-key guard\<close>

text \<open>
  Claim C8. The guard: when \<open>OCR_API_KEY\<close> is not set (or is empty), every request passes. When it is
  set to a non-empty key, a request whose \<open>x-api-key\<close> header is absent or differs from
  the key is answered 401 with the body \<open>{error: "Unauthorized"}\<close>, on \<open>POST /parse\<close> and
  on \<open>POST /api/ocr\<close>, with no effect; a request whose header equals the key passes. A
  request that passes reaches the \<open>/parse\<close> handler, and on \<open>/api/ocr\<close> the upload
  middleware and then the handler. The health routes run the health handler whatever the
  key and the headers are.
\<close>

theorem api_key_guard:
  "(OCR_API_KEY e = None \<or> OCR_API_KEY e = Some [] \<longrightarrow> verifyKey e req = Next req)
   \<and> (\<forall>k. OCR_API_KEY e = Some k \<and> k \<noteq> [] \<longrightarrow>
        (headers req (lit ''x-api-key'') \<noteq> Some k \<longrightarrow>
           verifyKey e req =
             Respond \<lparr>res_status = 401, res_body = Obj [(lit ''error'', Str (lit ''Unauthorized''))]\<rparr>
         \<and> app e rt POST (lit ''/parse'') req =
             Some (Sent \<lparr>res_status = 401, res_body = Obj [(lit ''error'', Str (lit ''Unauthorized''))]\<rparr>, [])
         \<and> app e rt POST (lit ''/api/ocr'') req =
             Some (Sent \<lparr>res_status = 401, res_body = Obj [(lit ''error'', Str (lit ''Unauthorized''))]\<rparr>, []))
      \<and> (headers req (lit ''x-api-key'') = Some k \<longrightarrow> verifyKey e req = Next req))
   \<and> (verifyKey e req = Next req \<longrightarrow>
        app e rt POST (lit ''/parse'') req = Some (parse_handler rt req)
      \<and> app e rt POST (lit ''/api/ocr'') req =
          Some (run_route [upload_single (lit ''file'') MAX_FILE_SIZE] (api_ocr_handler rt) req))
   \<and> app e rt GET (lit ''/'') req = Some (health_handler req)
   \<and> app e rt GET (lit ''/healthz'') req = Some (health_handler req)"
proof (intro conjI impI allI)
  assume "OCR_API_KEY e = None \<or> OCR_API_KEY e = Some []"
  then show "verifyKey e req = Next req"
    by (auto simp add: verifyKey_def env_value_def)
next
  fix k
  assume k: "OCR_API_KEY e = Some k \<and> k \<noteq> []"
    and h: "headers req (lit ''x-api-key'') \<noteq> Some k"
  from k h show v: "verifyKey e req =
      Respond \<lparr>res_status = 401, res_body = Obj [(lit ''error'', Str (lit ''Unauthorized''))]\<rparr>"
    by (auto simp add: verifyKey_def env_value_def status_json_def split: option.splits)
  from v show "app e rt POST (lit ''/parse'') req =
      Some (Sent \<lparr>res_status = 401, res_body = Obj [(lit ''error'', Str (lit ''Unauthorized''))]\<rparr>, [])"
    by (simp add: app_def post_parse_def)
  from v show "app e rt POST (lit ''/api/ocr'') req =
      Some (Sent \<lparr>res_status = 401, res_body = Obj [(lit ''error'', Str (lit ''Unauthorized''))]\<rparr>, [])"
    by (simp add: app_def post_api_ocr_def)
next
  fix k
  assume "OCR_API_KEY e = Some k \<and> k \<noteq> []" and "headers req (lit ''x-api-key'') = Some k"
  then show "verifyKey e req = Next req"
    by (simp add: verifyKey_def env_value_def)
next
  assume "verifyKey e req = Next req"
  then show "app e rt POST (lit ''/parse'') req = Some (parse_handler rt req)"
    by (simp add: app_def post_parse_def)
next
  assume "verifyKey e req = Next req"
  then show "app e rt POST (lit ''/api/ocr'') req =
      Some (run_route [upload_single (lit ''file'') MAX_FILE_SIZE] (api_ocr_handler rt) req)"
    by (simp add: app_def post_api_ocr_def)
next
  show "app e rt GET (lit ''/'') req = Some (health_handler req)"
    by (simp add: app_def get_health_def)
next
  show "app e rt GET (lit ''/healthz'') req = Some (health_handler req)"
    by (simp add: app_def get_health_def)
qed

theorem api_key_guard_witness:
  "verifyKey \<lparr>OCR_API_KEY = None\<rparr> example_request = Next example_request
   \<and> app \<lparr>OCR_API_KEY = Some (lit ''s3cret'')\<rparr> example_runtime POST (lit ''/parse'') example_request =
       Some (Sent \<lparr>res_status = 401, res_body = Obj [(lit ''error'', Str (lit ''Unauthorized''))]\<rparr>, [])
   \<and> app \<lparr>OCR_API_KEY = Some (lit ''s3cret'')\<rparr> example_runtime POST (lit ''/api/ocr'')
        (example_request\<lparr>headers := [lit ''x-api-key'' \<mapsto> lit ''S3CRET'']\<rparr>) =
       Some (Sent \<lparr>res_status = 401, res_body = Obj [(lit ''error'', Str (lit ''Unauthorized''))]\<rparr>, [])
   \<and> verifyKey \<lparr>OCR_API_KEY = Some (lit ''s3cret'')\<rparr>
        (example_request\<lparr>headers := [lit ''x-api-key'' \<mapsto> lit ''s3cret'']\<rparr>) =
       Next (example_request\<lparr>headers := [lit ''x-api-key'' \<mapsto> lit ''s3cret'']\<rparr>)
   \<and> app \<lparr>OCR_API_KEY = None\<rparr> example_runtime POST (lit ''/parse'') example_request =
       Some (parse_handler example_runtime example_request)"
proof -
  let ?e = "\<lparr>OCR_API_KEY = Some (lit ''s3cret'')\<rparr>"
  let ?bad = "example_request\<lparr>headers := [lit ''x-api-key'' \<mapsto> lit ''S3CRET'']\<rparr>"
  let ?good = "example_request\<lparr>headers := [lit ''x-api-key'' \<mapsto> lit ''s3cret'']\<rparr>"
  have n: "OCR_API_KEY \<lparr>OCR_API_KEY = None\<rparr> = None
      \<or> OCR_API_KEY \<lparr>OCR_API_KEY = None\<rparr> = Some []" by simp
  have k: "OCR_API_KEY ?e = Some (lit ''s3cret'') \<and> lit ''s3cret'' \<noteq> []" by simp
  have a: "headers example_request (lit ''x-api-key'') \<noteq> Some (lit ''s3cret'')"
    by (simp add: example_request_def)
  have b: "headers ?bad (lit ''x-api-key'') \<noteq> Some (lit ''s3cret'')" by simp
  have g: "headers ?good (lit ''x-api-key'') = Some (lit ''s3cret'')" by simp
  note t1 = api_key_guard [of "\<lparr>OCR_API_KEY = None\<rparr>" example_request example_runtime]
  note t2 = api_key_guard [of ?e example_request example_runtime]
  note t3 = api_key_guard [of ?e ?bad example_runtime]
  note t4 = api_key_guard [of ?e ?good example_runtime]
  note w1 = t1 [THEN conjunct1, rule_format, OF n]
  note w2 = t2 [THEN conjunct2, THEN conjunct1, rule_format, OF k, THEN conjunct1,
      rule_format, OF a, THEN conjunct2, THEN conjunct1]
  note w3 = t3 [THEN conjunct2, THEN conjunct1, rule_format, OF k, THEN conjunct1,
      rule_format, OF b, THEN conjunct2, THEN conjunct2]
  note w4 = t4 [THEN conjunct2, THEN conjunct1, rule_format, OF k, THEN conjunct2,
      rule_format, OF g]
  note w5 = t1 [THEN conjunct2, THEN conjunct2, THEN conjunct1, rule_format,
      OF w1, THEN conjunct1]
  from w1 w2 w3 w4 w5
  show ?thesis by simp
qed

section \<open>The health routes\<close>

text \<open>
  Claim C9. For every key configuration, collaborators and request, \<open>GET /\<close> and
  \<open>GET /healthz\<close> give the same answer: status 200 with the fixed descriptor
  \<open>{ok: true, service: "GovProp OCR", endpoints: {...}}\<close>, and no effect. The route
  \<open>GET /healthz\<close> of src/server.js answers 200 with \<open>{ok: true}\<close>.
\<close>

theorem health_is_200:
  "app e rt GET (lit ''/'') req = app e rt GET (lit ''/healthz'') req
   \<and> app e rt GET (lit ''/healthz'') req =
       Some (Sent \<lparr>res_status = 200,
                   res_body = Obj
                     [(lit ''ok'', Bool True),
                      (lit ''service'', Str (lit ''GovProp OCR'')),
                      (lit ''endpoints'', Obj
                         [(lit ''parseUrl'', Str (lit ''POST /parse'')),
                          (lit ''ocrUpload'', Str (lit ''POST /api/ocr'')),
                          (lit ''health'', Str (lit ''GET /healthz''))])]\<rparr>, [])
   \<and> (\<exists>b. app e rt GET (lit ''/healthz'') req = Some (Sent \<lparr>res_status = 200, res_body = b\<rparr>, [])
          \<and> property b (lit ''ok'') = Bool True)
   \<and> app_minimal e rt GET (lit ''/healthz'') req =
       Some (Sent \<lparr>res_status = 200, res_body = Obj [(lit ''ok'', Bool True)]\<rparr>, [])"
  by (simp add: app_def app_minimal_def get_health_def health_handler_def healthz_minimal_def
      json_def status_json_def)

theorem health_is_200_witness:
  "app \<lparr>OCR_API_KEY = Some (lit ''s3cret'')\<rparr> example_runtime GET (lit ''/'') example_request =
     Some (health_handler example_request)
   \<and> app_minimal \<lparr>OCR_API_KEY = Some (lit ''s3cret'')\<rparr> example_runtime GET (lit ''/healthz'')
       example_request =
     Some (Sent \<lparr>res_status = 200, res_body = Obj [(lit ''ok'', Bool True)]\<rparr>, [])"
  using health_is_200 [of "\<lparr>OCR_API_KEY = Some (lit ''s3cret'')\<rparr>" example_runtime example_request]
  by (simp add: health_handler_def json_def status_json_def)

section \<open>The stored content type is compared as it is\<close>




end
